theory Spec2Isabelle
  imports Complex_Main
begin

section \<open>Errors\<close>

text \<open>
  The exceptions the sources throw, as values.  A fallible operation returns
  \<open>error + 'a\<close>, with \<open>Inl\<close> for the exception.
  \<^item> \<open>RuntimeError\<close>: \<^verbatim>\<open>std::runtime_error\<close> with its message;
  \<^item> \<open>DomainError\<close>: \<^verbatim>\<open>std::domain_error\<close> of \<^verbatim>\<open>JacobianFactor::eliminate\<close>, with the
    variable its message names (\<^verbatim>\<open>front()\<close>);
  \<^item> \<open>InvalidArgument\<close>: \<^verbatim>\<open>std::invalid_argument\<close> with its message;
  \<^item> \<open>CarefulCholeskyNegativeMatrixException\<close>: the exception of \<^verbatim>\<open>choleskyCareful\<close>;
  \<^item> \<open>Undefined\<close>: the source dereferences a null pointer or reads past a container
    there, which C++ leaves undefined.
\<close>

datatype error =
    RuntimeError string
  | DomainError nat
  | InvalidArgument string
  | CarefulCholeskyNegativeMatrixException
  | Undefined

section \<open>DecisionTreeFactor.h: the unsupported operations\<close>

text \<open>
  \<^verbatim>\<open>ensureArcConsistency(size_t j, std::vector<Domain>& domains) const\<close>: the throw is
  commented out, the body is \<^verbatim>\<open>return false;\<close> and \<^verbatim>\<open>domains\<close> is not written.
\<close>

definition ensureArcConsistency :: "'f \<Rightarrow> nat \<Rightarrow> 'd list \<Rightarrow> error + bool" where
  "ensureArcConsistency this j domains = Inr False"

text \<open>\<^verbatim>\<open>partiallyApply(const Values&) const\<close>.\<close>

definition partiallyApply :: "'f \<Rightarrow> 'v \<Rightarrow> error + 'r" where
  "partiallyApply this values =
     Inl (RuntimeError ''DecisionTreeFactor::partiallyApply not implemented'')"

text \<open>\<^verbatim>\<open>partiallyApply(const std::vector<Domain>&) const\<close>, the domain version.\<close>

definition partiallyApply_domains :: "'f \<Rightarrow> 'd list \<Rightarrow> error + 'r" where
  "partiallyApply_domains this domains =
     Inl (RuntimeError ''DecisionTreeFactor::partiallyApply not implemented'')"

section \<open>CameraSet.h: equals\<close>

text \<open>
  A \<^verbatim>\<open>CameraSet<CAMERA>\<close> is a \<^verbatim>\<open>std::vector<CAMERA>\<close>: a list.  The camera type and
  its own \<^verbatim>\<open>equals(other, tol)\<close> are template parameters: \<open>'c\<close> and \<open>camera_equals\<close>.

  One pass of the body of the \<^verbatim>\<open>for\<close> loop at index \<open>i\<close>: it may clear the flag, and then
  reaches the \<^verbatim>\<open>break\<close>, which stands after the \<^verbatim>\<open>if\<close> and not inside it.  The result
  is the flag and whether the loop goes on.
\<close>

definition equals_body ::
  "('c \<Rightarrow> 'c \<Rightarrow> real \<Rightarrow> bool) \<Rightarrow> 'c list \<Rightarrow> 'c list \<Rightarrow> real \<Rightarrow> nat \<Rightarrow> bool \<Rightarrow> bool \<times> bool" where
  "equals_body camera_equals this p tol i camerasAreEqual =
     ((if camera_equals (this ! i) (p ! i) tol = False then False else camerasAreEqual),
      False)"

text \<open>The loop \<^verbatim>\<open>for (size_t i = 0; i < this->size(); i++)\<close>, from index \<open>i\<close>.\<close>

function equals_loop ::
  "('c \<Rightarrow> 'c \<Rightarrow> real \<Rightarrow> bool) \<Rightarrow> 'c list \<Rightarrow> 'c list \<Rightarrow> real \<Rightarrow> nat \<Rightarrow> bool \<Rightarrow> bool" where
  "equals_loop camera_equals this p tol i camerasAreEqual =
     (if i < length this then
        (case equals_body camera_equals this p tol i camerasAreEqual of
           (flag, continue) \<Rightarrow>
             if continue then equals_loop camera_equals this p tol (Suc i) flag else flag)
      else camerasAreEqual)"
  by pat_completeness auto
termination
  by (relation "measure (\<lambda>(ce, this, p, tol, i, flag). length this - i)") auto

declare equals_loop.simps [simp del]

definition CameraSet_equals ::
  "('c \<Rightarrow> 'c \<Rightarrow> real \<Rightarrow> bool) \<Rightarrow> 'c list \<Rightarrow> 'c list \<Rightarrow> real \<Rightarrow> bool" where
  "CameraSet_equals camera_equals this p tol =
     (if length this \<noteq> length p then False
      else equals_loop camera_equals this p tol 0 True)"

section \<open>Vectors, matrices and the noise model\<close>

text \<open>
  Scalars are \<^verbatim>\<open>double\<close> in the source and \<open>real\<close> here: the theorems are about which
  entries and which sums the code computes, not about rounding, and there is no NaN.
  Sizes and indices (\<^verbatim>\<open>size_t\<close>, \<^verbatim>\<open>Index\<close>) are \<open>nat\<close>; where the source subtracts two
  sizes the theorems show the difference is not negative, and where it adds 1 to a key
  (line 201) the sum wraps at \<open>2\<^sup>6\<^sup>4\<close>, for a \<^verbatim>\<open>size_t\<close> of 64 bits.

  A \<^verbatim>\<open>Vector\<close> is the list of its entries.  A dense \<^verbatim>\<open>Matrix\<close> is its two dimensions and
  its coefficients: a matrix with no rows still has a column count, as in Eigen.
  An access outside the dimensions is undefined in the source; the theorems below read
  coefficients inside the dimensions only.
\<close>

type_synonym Vector = "real list"

record Matrix =
  nrows :: nat
  ncols :: nat
  coeff :: "nat \<Rightarrow> nat \<Rightarrow> real"

text \<open>\<^verbatim>\<open>M(i,j) = v\<close>.\<close>

definition set_coeff :: "Matrix \<Rightarrow> nat \<Rightarrow> nat \<Rightarrow> real \<Rightarrow> Matrix" where
  "set_coeff M i j v = M\<lparr>coeff := (coeff M)(i := (coeff M i)(j := v))\<rparr>"

text \<open>\<^verbatim>\<open>-v\<close>, \<^verbatim>\<open>e += v\<close>, \<^verbatim>\<open>v.dot(w)\<close> and the product \<^verbatim>\<open>A * x\<close> of a matrix and a vector.\<close>

definition neg :: "Vector \<Rightarrow> Vector" where
  "neg v = map uminus v"

definition vec_add :: "Vector \<Rightarrow> Vector \<Rightarrow> Vector" where
  "vec_add e v = map2 (+) e v"

definition dot :: "Vector \<Rightarrow> Vector \<Rightarrow> real" where
  "dot v w = sum_list (map2 (*) v w)"

definition mat_vec :: "Matrix \<Rightarrow> Vector \<Rightarrow> Vector" where
  "mat_vec A x = map (\<lambda>i. \<Sum>j < ncols A. coeff A i j * x ! j) [0..<nrows A]"

text \<open>
  Modelled from the spec: the noise model (\<^verbatim>\<open>NoiseModel.h\<close> is not among the sources).
  Section 3 gives its variants: Unit (identity weighting), Diagonal (a sigma for every
  row) and Constrained (rows of zero sigma are hard constraints).  The three
  constructors stand for the factory functions \<^verbatim>\<open>noiseModel::Unit::Create(n)\<close>,
  \<^verbatim>\<open>noiseModel::Diagonal::Sigmas(v)\<close> and \<^verbatim>\<open>noiseModel::Constrained::MixedSigmas(v)\<close>.
  Section 4.4 gives its interface; \<open>dim\<close>, \<open>sigmas\<close> and \<open>isConstrained\<close> are below.
  The numerical routines \<^verbatim>\<open>QR\<close>, \<^verbatim>\<open>whiten\<close> and \<^verbatim>\<open>Whiten\<close> are parameters of the
  functions that call them.
\<close>

datatype noise_model = Unit nat | Diagonal Vector | Constrained Vector

fun dim :: "noise_model \<Rightarrow> nat" where
  "dim (Unit n) = n"
| "dim (Diagonal s) = length s"
| "dim (Constrained s) = length s"

fun sigmas :: "noise_model \<Rightarrow> Vector" where
  "sigmas (Unit n) = replicate n 1"
| "sigmas (Diagonal s) = s"
| "sigmas (Constrained s) = s"

fun isConstrained :: "noise_model \<Rightarrow> bool" where
  "isConstrained (Unit n) = False"
| "isConstrained (Diagonal s) = False"
| "isConstrained (Constrained s) = True"

text \<open>
  \<^verbatim>\<open>v.segment(start, n)\<close> of Eigen and \<^verbatim>\<open>sub(v, i1, i2)\<close> of \<^verbatim>\<open>base/Vector.h\<close>: the entries
  \<open>start, \<dots>, start + n - 1\<close> and \<open>i1, \<dots>, i2 - 1\<close>.
\<close>

definition segment :: "Vector \<Rightarrow> nat \<Rightarrow> nat \<Rightarrow> Vector" where
  "segment v start n = take n (drop start v)"

definition sub :: "Vector \<Rightarrow> nat \<Rightarrow> nat \<Rightarrow> Vector" where
  "sub v i1 i2 = take (i2 - i1) (drop i1 v)"

section \<open>The block view of the augmented matrix\<close>

text \<open>
  Modelled from the spec: \<^verbatim>\<open>BlockAb\<close>, the \<^verbatim>\<open>VerticalBlockView\<close> of
  \<^verbatim>\<open>base/blockMatrices.h\<close>, which is not among the sources.  Sections 3 and 4.1: the
  matrix is partitioned into column blocks given by a sequence of block widths, one
  block for every variable and a last one for \<open>b\<close>; \<open>rowStart\<close>, \<open>rowEnd\<close> and
  \<open>firstBlock\<close> delimit the active view; every view aliases the one backing matrix.
  The view is a record beside the matrix it views; \<open>offset\<close> is the first column of
  a block of the active view.
\<close>

record BlockAb =
  dims :: "nat list"
  rowStart :: nat
  rowEnd :: nat
  firstBlock :: nat

definition offset :: "BlockAb \<Rightarrow> nat \<Rightarrow> nat" where
  "offset v b = sum_list (take (firstBlock v + b) (dims v))"

definition nBlocks :: "BlockAb \<Rightarrow> nat" where
  "nBlocks v = length (dims v) - firstBlock v"

definition rows :: "BlockAb \<Rightarrow> nat" where
  "rows v = rowEnd v - rowStart v"

definition cols :: "BlockAb \<Rightarrow> nat" where
  "cols v = offset v (nBlocks v) - offset v 0"

text \<open>\<^verbatim>\<open>Ab_.range(i, j)\<close>: the blocks \<open>i, \<dots>, j - 1\<close> of the active rows, as a matrix.\<close>

definition range_blocks :: "Matrix \<Rightarrow> BlockAb \<Rightarrow> nat \<Rightarrow> nat \<Rightarrow> Matrix" where
  "range_blocks M v i j =
     \<lparr>nrows = rows v, ncols = offset v j - offset v i,
      coeff = (\<lambda>r c. coeff M (rowStart v + r) (offset v i + c))\<rparr>"

text \<open>\<^verbatim>\<open>Ab_(i)\<close>: one block.  \<^verbatim>\<open>Ab_.column(i, c)\<close>: column \<open>c\<close> of block \<open>i\<close>.\<close>

definition block :: "Matrix \<Rightarrow> BlockAb \<Rightarrow> nat \<Rightarrow> Matrix" where
  "block M v i = range_blocks M v i (Suc i)"

definition column :: "Matrix \<Rightarrow> BlockAb \<Rightarrow> nat \<Rightarrow> nat \<Rightarrow> Vector" where
  "column M v i c = map (\<lambda>r. coeff M (rowStart v + r) (offset v i + c)) [0..<rows v]"

text \<open>\<^verbatim>\<open>m.row(r)\<close> of a dense matrix.\<close>

definition row :: "Matrix \<Rightarrow> nat \<Rightarrow> Vector" where
  "row M r = map (coeff M r) [0..<ncols M]"

text \<open>
  Modelled from the spec: \<^verbatim>\<open>assignNoalias\<close>, the structure-preserving copy of a view
  (section 4.1): a new backing matrix holding the active rows and blocks of the
  source, and a view that spans all of it.
\<close>

definition assignNoalias :: "Matrix \<Rightarrow> BlockAb \<Rightarrow> Matrix \<times> BlockAb" where
  "assignNoalias M v =
     (range_blocks M v 0 (nBlocks v),
      \<lparr>dims = drop (firstBlock v) (dims v), rowStart = 0, rowEnd = rows v, firstBlock = 0\<rparr>)"

section \<open>JacobianFactor\<close>

text \<open>
  The members of \<^verbatim>\<open>JacobianFactor\<close>: \<^verbatim>\<open>keys_\<close> (of the base class), \<^verbatim>\<open>model_\<close>,
  \<^verbatim>\<open>firstNonzeroBlocks_\<close>, \<^verbatim>\<open>matrix_\<close> and the view \<^verbatim>\<open>Ab_\<close> of \<^verbatim>\<open>matrix_\<close>.  \<^verbatim>\<open>model_\<close> is a
  shared pointer, null (\<open>None\<close>) in a factor built without a model; a call through
  the null pointer is \<open>Undefined\<close>.
\<close>

record JacobianFactor =
  keys :: "nat list"
  model :: "noise_model option"
  firstNonzeroBlocks :: "nat list"
  matrix :: Matrix
  Ab :: BlockAb

text \<open>
  The accessors of \<^verbatim>\<open>JacobianFactor.h\<close>: \<^verbatim>\<open>size()\<close> is the number of keys, \<^verbatim>\<open>rows()\<close> the
  number of active rows, \<^verbatim>\<open>getA(var)\<close> the block of a variable and \<^verbatim>\<open>getb()\<close> the first
  column of the block after the last variable.
\<close>

definition size_jf :: "JacobianFactor \<Rightarrow> nat" where
  "size_jf f = length (keys f)"

definition rows_jf :: "JacobianFactor \<Rightarrow> nat" where
  "rows_jf f = rows (Ab f)"

definition getA :: "JacobianFactor \<Rightarrow> nat \<Rightarrow> Matrix" where
  "getA f pos = block (matrix f) (Ab f) pos"

definition getb :: "JacobianFactor \<Rightarrow> Vector" where
  "getb f = column (matrix f) (Ab f) (size_jf f) 0"

text \<open>
  Modelled from the spec: \<^verbatim>\<open>empty()\<close>, declared in \<^verbatim>\<open>JacobianFactor.h\<close>, which is not among
  the sources.  Section 3: the factor is empty, meaning zero keys and zero rows.
\<close>

definition empty_jf :: "JacobianFactor \<Rightarrow> bool" where
  "empty_jf f = (size_jf f = 0 \<and> rows_jf f = 0)"

text \<open>
  \<^verbatim>\<open>assertInvariants()\<close> (lines 46-60) and the \<^verbatim>\<open>assert\<close> statements are compiled in debug
  builds only.  The functions below are the code without them; the theorems take as
  hypotheses the assertions they need.
\<close>

text \<open>
  Modelled from the spec: the invariant of the block view (section 3), the sum of the
  block widths is the column count of the matrix; and the active rows are rows of
  the matrix.
\<close>

definition view_fits :: "Matrix \<Rightarrow> BlockAb \<Rightarrow> bool" where
  "view_fits M v =
     (sum_list (dims v) = ncols M \<and> rowStart v \<le> rowEnd v \<and> rowEnd v \<le> nrows M)"

section \<open>JacobianFactor::eliminate\<close>

text \<open>
  Modelled from the spec: \<^verbatim>\<open>GaussianConditional\<close> (not among the sources) as the
  arguments \<^verbatim>\<open>eliminate\<close> constructs it from (section 4.3, step 6): the keys, the number
  of frontals, the view of the first \<open>frontalDim\<close> rows and their sigmas.
\<close>

record GaussianConditional =
  cg_keys :: "nat list"
  cg_nrFrontals :: nat
  cg_matrix :: Matrix
  rsd :: BlockAb
  cg_sigmas :: Vector

text \<open>The assertions at the head of \<^verbatim>\<open>eliminate\<close> (lines 375-376).\<close>

definition eliminate_pre :: "JacobianFactor \<Rightarrow> nat \<Rightarrow> bool" where
  "eliminate_pre f nrFrontals =
     (rowStart (Ab f) = 0 \<and> rowEnd (Ab f) = nrows (matrix f) \<and> firstBlock (Ab f) = 0
      \<and> nrFrontals \<le> size_jf f)"

text \<open>\<^verbatim>\<open>size_t frontalDim = Ab_.range(0,nrFrontals).cols();\<close> (line 413).\<close>

definition frontalDim :: "JacobianFactor \<Rightarrow> nat \<Rightarrow> nat" where
  "frontalDim f nrFrontals = ncols (range_blocks (matrix f) (Ab f) 0 nrFrontals)"

text \<open>
  Lines 425-428: the inner loop zeroes column \<open>j\<close> in the rows \<open>j + 1, \<dots>, rank - 1\<close>,
  the outer loop runs over the columns, when the matrix has a row.
\<close>

definition zero_column :: "nat \<Rightarrow> nat \<Rightarrow> Matrix \<Rightarrow> Matrix" where
  "zero_column rank j M = fold (\<lambda>i M'. set_coeff M' i j 0) [Suc j..<rank] M"

definition zero_lower_left :: "nat \<Rightarrow> Matrix \<Rightarrow> Matrix" where
  "zero_lower_left rank M =
     (if nrows M > 0 then fold (zero_column rank) [0..<ncols M] M else M)"

text \<open>
  Lines 470-478.  The \<^verbatim>\<open>while\<close> loop moves \<open>varpos\<close> on while the block after it starts
  at or before the row; the \<^verbatim>\<open>for\<close> loop does so for every row in turn, keeping
  \<open>varpos\<close> from one row to the next.
\<close>

function advance_varpos :: "JacobianFactor \<Rightarrow> nat \<Rightarrow> nat \<Rightarrow> nat" where
  "advance_varpos f r varpos =
     (if varpos < size_jf f \<and> offset (Ab f) (varpos + 1) - offset (Ab f) 0 \<le> r
      then advance_varpos f r (varpos + 1) else varpos)"
  by pat_completeness auto
termination
  by (relation "measure (\<lambda>(f, r, varpos). size_jf f - varpos)") auto

declare advance_varpos.simps [simp del]

fun rowstarts :: "JacobianFactor \<Rightarrow> nat list \<Rightarrow> nat \<Rightarrow> nat list" where
  "rowstarts f [] varpos = []"
| "rowstarts f (r # rs) varpos =
     (let varpos' = advance_varpos f r varpos in varpos' # rowstarts f rs varpos')"

text \<open>
  \<^verbatim>\<open>eliminate(nrFrontals)\<close>, lines 373-487, without the debug output and the timers.
  \<open>QR\<close> is \<^verbatim>\<open>model_->QR(matrix_)\<close>: it returns the new noise model and the matrix it
  leaves in place.  The result is the exception, or the conditional and the factor
  left behind.
\<close>

definition eliminate ::
  "(noise_model \<Rightarrow> Matrix \<Rightarrow> noise_model \<times> Matrix) \<Rightarrow> nat \<Rightarrow> JacobianFactor
     \<Rightarrow> error + (GaussianConditional \<times> JacobianFactor)" where
  "eliminate QR nrFrontals f =
     (let fDim = frontalDim f nrFrontals in
      case model f of
        None \<Rightarrow> Inl Undefined
      | Some m \<Rightarrow>
          (let (noiseModel, M1) = QR m (matrix f);
               M2 = zero_lower_left (dim noiseModel) M1
           in if dim noiseModel < fDim then Inl (DomainError (hd (keys f)))
              else
                (let Ab1 = (Ab f)\<lparr>rowEnd := rowStart (Ab f) + fDim\<rparr>;
                     sigmas1 = segment (sigmas noiseModel) (rowStart Ab1)
                                 (rowEnd Ab1 - rowStart Ab1);
                     conditionals =
                       \<lparr>cg_keys = keys f, cg_nrFrontals = nrFrontals, cg_matrix = M2,
                        rsd = Ab1, cg_sigmas = sigmas1\<rparr>;
                     Ab2 = Ab1\<lparr>rowStart := rowStart Ab1 + fDim\<rparr>;
                     Ab3 = Ab2\<lparr>firstBlock := firstBlock Ab2 + nrFrontals\<rparr>;
                     Ab4 = Ab3\<lparr>rowEnd := dim noiseModel\<rparr>;
                     keys1 = drop nrFrontals (keys f);
                     model1 =
                       (if isConstrained noiseModel
                        then Constrained (sub (sigmas noiseModel) fDim (dim noiseModel))
                        else Diagonal (sub (sigmas noiseModel) fDim (dim noiseModel)));
                     f1 = f\<lparr>keys := keys1, model := Some model1, matrix := M2, Ab := Ab4\<rparr>;
                     f2 = f1\<lparr>firstNonzeroBlocks := rowstarts f1 [0..<rows_jf f1] 0\<rparr>
                 in Inr (conditionals, f2))))"

section \<open>The staircase\<close>

text \<open>
  Block \<open>k\<close> of row \<open>r\<close> of the active view holds zeros only; the first block of the
  row that does not, if there is one; and the staircase invariant of section 8 of the
  spec: \<^verbatim>\<open>firstNonzeroBlocks_\<close> has an entry for every active row, and the entry is at
  most the first block of the row with a nonzero coefficient.
\<close>

definition block_is_zero :: "JacobianFactor \<Rightarrow> nat \<Rightarrow> nat \<Rightarrow> bool" where
  "block_is_zero f r k =
     (\<forall>c \<in> {offset (Ab f) k ..< offset (Ab f) (Suc k)}.
        coeff (matrix f) (rowStart (Ab f) + r) c = 0)"

definition first_nonzero_block :: "JacobianFactor \<Rightarrow> nat \<Rightarrow> nat option" where
  "first_nonzero_block f r = find (\<lambda>k. \<not> block_is_zero f r k) [0..<nBlocks (Ab f)]"

definition staircase :: "JacobianFactor \<Rightarrow> bool" where
  "staircase f =
     (length (firstNonzeroBlocks f) = rows_jf f
      \<and> (\<forall>r \<in> {0..<rows_jf f}.
           case first_nonzero_block f r of
             None \<Rightarrow> True
           | Some k \<Rightarrow> firstNonzeroBlocks f ! r \<le> k))"

text \<open>
  Modelled from the spec: what \<^verbatim>\<open>eliminate\<close> needs of \<^verbatim>\<open>model_->QR(matrix_)\<close>, which is not
  among the sources.  Section 4.3, step 3: the triangularization is in place, so the
  matrix keeps its dimensions, and the returned noise model has one sigma for every
  output row, so its dimension is at most the row count.  (With a larger dimension
  lines 427-428 and the view left behind would reach past the matrix.)
\<close>

definition QR_in_place ::
  "(noise_model \<Rightarrow> Matrix \<Rightarrow> noise_model \<times> Matrix) \<Rightarrow> noise_model \<Rightarrow> Matrix \<Rightarrow> bool" where
  "QR_in_place QR m M =
     (case QR m M of (noiseModel, M') \<Rightarrow>
        nrows M' = nrows M \<and> ncols M' = ncols M \<and> dim noiseModel \<le> nrows M)"

section \<open>The constructors of JacobianFactor\<close>

text \<open>
  \<^verbatim>\<open>Ab_.copyStructureFrom(BlockAb(matrix_, dims, dims + n, m))\<close>: a new matrix of \<open>m\<close> rows
  for the block widths \<open>dims\<close>, and the view of all of it.  The source leaves the
  coefficients unset; here they are 0 until assigned.
\<close>

definition copyStructureFrom :: "nat list \<Rightarrow> nat \<Rightarrow> Matrix \<times> BlockAb" where
  "copyStructureFrom ds m =
     (\<lparr>nrows = m, ncols = sum_list ds, coeff = (\<lambda>i j. 0)\<rparr>,
      \<lparr>dims = ds, rowStart = 0, rowEnd = m, firstBlock = 0\<rparr>)"

text \<open>\<^verbatim>\<open>Ab_(k) = A\<close> and \<^verbatim>\<open>getb() = b\<close>, where \<open>b\<close> is column 0 of block \<open>k\<close>.\<close>

definition assign_block :: "Matrix \<Rightarrow> BlockAb \<Rightarrow> nat \<Rightarrow> Matrix \<Rightarrow> Matrix" where
  "assign_block M v k A =
     M\<lparr>coeff := (\<lambda>i j.
          if rowStart v \<le> i \<and> i < rowEnd v \<and> offset v k \<le> j \<and> j < offset v (Suc k)
          then coeff A (i - rowStart v) (j - offset v k) else coeff M i j)\<rparr>"

definition assign_column :: "Matrix \<Rightarrow> BlockAb \<Rightarrow> nat \<Rightarrow> Vector \<Rightarrow> Matrix" where
  "assign_column M v k b =
     M\<lparr>coeff := (\<lambda>i j.
          if rowStart v \<le> i \<and> i < rowEnd v \<and> j = offset v k
          then b ! (i - rowStart v) else coeff M i j)\<rparr>"

text \<open>Line 82, \<^verbatim>\<open>JacobianFactor()\<close>: no keys, no model, a matrix with no rows and no blocks.\<close>

definition JacobianFactor_default :: JacobianFactor where
  "JacobianFactor_default =
     \<lparr>keys = [], model = None, firstNonzeroBlocks = [],
      matrix = \<lparr>nrows = 0, ncols = 0, coeff = (\<lambda>i j. 0)\<rparr>,
      Ab = \<lparr>dims = [], rowStart = 0, rowEnd = 0, firstBlock = 0\<rparr>\<rparr>"

text \<open>Lines 85-90, \<^verbatim>\<open>JacobianFactor(const Vector& b_in)\<close>.\<close>

definition JacobianFactor_b :: "Vector \<Rightarrow> JacobianFactor" where
  "JacobianFactor_b b_in =
     (let (M0, v) = copyStructureFrom [1] (length b_in) in
      \<lparr>keys = [], model = None, firstNonzeroBlocks = replicate (length b_in) 0,
       matrix = assign_column M0 v 0 b_in, Ab = v\<rparr>)"

text \<open>Lines 93-126, the constructors with one, two and three terms.\<close>

definition JacobianFactor_1 ::
  "nat \<Rightarrow> Matrix \<Rightarrow> Vector \<Rightarrow> noise_model option \<Rightarrow> JacobianFactor" where
  "JacobianFactor_1 i1 A1 b m =
     (let (M0, v) = copyStructureFrom [ncols A1, 1] (length b);
          M1 = assign_block M0 v 0 A1
      in \<lparr>keys = [i1], model = m, firstNonzeroBlocks = replicate (length b) 0,
          matrix = assign_column M1 v 1 b, Ab = v\<rparr>)"

definition JacobianFactor_2 ::
  "nat \<Rightarrow> Matrix \<Rightarrow> nat \<Rightarrow> Matrix \<Rightarrow> Vector \<Rightarrow> noise_model option \<Rightarrow> JacobianFactor" where
  "JacobianFactor_2 i1 A1 i2 A2 b m =
     (let (M0, v) = copyStructureFrom [ncols A1, ncols A2, 1] (length b);
          M1 = assign_block M0 v 0 A1;
          M2 = assign_block M1 v 1 A2
      in \<lparr>keys = [i1, i2], model = m, firstNonzeroBlocks = replicate (length b) 0,
          matrix = assign_column M2 v 2 b, Ab = v\<rparr>)"

definition JacobianFactor_3 ::
  "nat \<Rightarrow> Matrix \<Rightarrow> nat \<Rightarrow> Matrix \<Rightarrow> nat \<Rightarrow> Matrix \<Rightarrow> Vector \<Rightarrow> noise_model option
     \<Rightarrow> JacobianFactor" where
  "JacobianFactor_3 i1 A1 i2 A2 i3 A3 b m =
     (let (M0, v) = copyStructureFrom [ncols A1, ncols A2, ncols A3, 1] (length b);
          M1 = assign_block M0 v 0 A1;
          M2 = assign_block M1 v 1 A2;
          M3 = assign_block M2 v 2 A3
      in \<lparr>keys = [i1, i2, i3], model = m, firstNonzeroBlocks = replicate (length b) 0,
          matrix = assign_column M3 v 3 b, Ab = v\<rparr>)"

text \<open>
  Lines 129-163, the constructors from a \<^verbatim>\<open>std::vector\<close> and from a \<^verbatim>\<open>std::list\<close> of
  terms: the same statements over two containers, one definition.
\<close>

definition JacobianFactor_terms ::
  "(nat \<times> Matrix) list \<Rightarrow> Vector \<Rightarrow> noise_model option \<Rightarrow> JacobianFactor" where
  "JacobianFactor_terms terms b m =
     (let ds = map (\<lambda>term. ncols (snd term)) terms @ [1];
          (M0, v) = copyStructureFrom ds (length b);
          M1 = fold (\<lambda>j M. assign_block M v j (snd (terms ! j))) [0..<length terms] M0
      in \<lparr>keys = map fst terms, model = m, firstNonzeroBlocks = replicate (length b) 0,
          matrix = assign_column M1 v (length terms) b, Ab = v\<rparr>)"

text \<open>
  Lines 63-67 and 216-223, the copy constructor and the assignment: the keys, the
  model and the staircase are copied, the matrix through \<^verbatim>\<open>assignNoalias\<close>.
\<close>

definition JacobianFactor_copy :: "JacobianFactor \<Rightarrow> JacobianFactor" where
  "JacobianFactor_copy gf =
     (let (M, v) = assignNoalias (matrix gf) (Ab gf) in
      \<lparr>keys = keys gf, model = model gf, firstNonzeroBlocks = firstNonzeroBlocks gf,
       matrix = M, Ab = v\<rparr>)"

text \<open>
  Lines 166-170, from a conditional.  \<open>Sigmas\<close> is the factory
  \<^verbatim>\<open>noiseModel::Diagonal::Sigmas(sigmas, smart)\<close>; \<^verbatim>\<open>cg.get_d()\<close> has an entry for every row
  of \<^verbatim>\<open>cg.rsd_\<close>.
\<close>

definition JacobianFactor_of_conditional ::
  "(Vector \<Rightarrow> bool \<Rightarrow> noise_model) \<Rightarrow> GaussianConditional \<Rightarrow> JacobianFactor" where
  "JacobianFactor_of_conditional Sigmas cg =
     (let (M, v) = assignNoalias (cg_matrix cg) (rsd cg) in
      \<lparr>keys = cg_keys cg, model = Some (Sigmas (cg_sigmas cg) True),
       firstNonzeroBlocks = replicate (rows (rsd cg)) 0, matrix = M, Ab = v\<rparr>)"

section \<open>From a HessianFactor\<close>

text \<open>
  Modelled from the spec: \<^verbatim>\<open>HessianFactor\<close> (not among the sources), section 3: its keys
  and the symmetric block matrix \<^verbatim>\<open>info_\<close>, here the matrix and its block widths.
\<close>

record HessianFactor =
  hf_keys :: "nat list"
  info_matrix :: Matrix
  info_dims :: "nat list"

text \<open>
  Lines 189-190: \<^verbatim>\<open>matrix_.topRows(maxrank).triangularView<Eigen::StrictlyLower>()\<close> is set
  to zero.
\<close>

definition zero_strictly_lower :: "nat \<Rightarrow> Matrix \<Rightarrow> Matrix" where
  "zero_strictly_lower maxrank M =
     M\<lparr>coeff := (\<lambda>i j. if i < maxrank \<and> j < i \<and> j < ncols M then 0 else coeff M i j)\<rparr>"

text \<open>
  A \<^verbatim>\<open>std::set<Index>\<close> is the ascending list of its elements; \<^verbatim>\<open>vars.insert(k)\<close>.
\<close>

definition set_insert :: "nat \<Rightarrow> nat list \<Rightarrow> nat list" where
  "set_insert k vars = (if k \<in> set vars then vars else insort k vars)"

text \<open>
  Modelled from the spec: \<^verbatim>\<open>permuteWithInverse\<close>, of the base class, not among the
  sources.  Section 3: keys are re-sorted by an explicit permutation; it renames
  every key through the permutation and leaves the matrix as it is.
\<close>

definition permuteWithInverse :: "nat list \<Rightarrow> nat list \<Rightarrow> nat list" where
  "permuteWithInverse inversePermutation ks = map (\<lambda>key. inversePermutation ! key) ks"

text \<open>
  Lines 197-210.  The permutation is the identity on \<open>0, \<dots>, *vars.rbegin()\<close>, then sends
  the \<open>j\<close>-th smallest key to \<open>j\<close>; the keys are renamed through it and then overwritten,
  slot \<open>j\<close> by the \<open>j\<close>-th smallest key.

  With no key \<^verbatim>\<open>*vars.rbegin()\<close> is undefined.  The size of the permutation is
  \<^verbatim>\<open>*vars.rbegin() + 1\<close> in \<^verbatim>\<open>size_t\<close>: for the largest key, \<^verbatim>\<open>SIZE_MAX\<close>, the sum wraps to 0,
  and \<^verbatim>\<open>permutation[var]\<close> then writes past the permutation, which is undefined too.
\<close>

definition SIZE_MAX :: nat where
  "SIZE_MAX = 2 ^ 64 - 1"

definition sort_keys :: "nat list \<Rightarrow> error + nat list" where
  "sort_keys ks =
     (let vars = fold set_insert ks [] in
      if vars = [] then Inl Undefined
      else
        (let identity = [0..<(last vars + 1) mod (SIZE_MAX + 1)] in
         if \<not> list_all (\<lambda>var. var < length identity) vars then Inl Undefined
         else
           (let permutation =
                  fold (\<lambda>(jNew, var) p. p[var := jNew]) (enumerate 0 vars) identity;
                ks1 = permuteWithInverse permutation ks
            in Inr (fold (\<lambda>(jNew, var) ks'. ks'[jNew := var]) (enumerate 0 vars) ks1))))"

text \<open>
  Lines 173-213.  \<open>choleskyCareful\<close> is \<^verbatim>\<open>choleskyCareful(matrix_)\<close> of \<^verbatim>\<open>base/cholesky.h\<close>:
  it throws, or returns its pair (the rank first) and the matrix it leaves in place.
  The \<^verbatim>\<open>catch\<close> clause prints and throws the exception again.
\<close>

definition JacobianFactor_of_Hessian ::
  "(Matrix \<Rightarrow> error + ((nat \<times> bool) \<times> Matrix)) \<Rightarrow> HessianFactor \<Rightarrow> error + JacobianFactor" where
  "JacobianFactor_of_Hessian choleskyCareful factor =
     (let M0 = info_matrix factor;
          Ab0 = \<lparr>dims = info_dims factor, rowStart = 0, rowEnd = nrows M0, firstBlock = 0\<rparr>
      in case choleskyCareful M0 of
           Inl e \<Rightarrow> Inl e
         | Inr (result, M1) \<Rightarrow>
             (let maxrank = fst result;
                  M2 = zero_strictly_lower maxrank M1;
                  Ab1 = Ab0\<lparr>rowEnd := maxrank\<rparr>
              in case sort_keys (hf_keys factor) of
                   Inl e \<Rightarrow> Inl e
                 | Inr ks \<Rightarrow>
                     Inr \<lparr>keys = ks, model = Some (Unit maxrank),
                          firstNonzeroBlocks = replicate (rows Ab1) 0,
                          matrix = M2, Ab = Ab1\<rparr>))"

text \<open>
  Lines 70-79, from a \<^verbatim>\<open>GaussianFactor\<close>, by its dynamic type.
\<close>

datatype GaussianFactor =
    IsJacobian JacobianFactor
  | IsHessian HessianFactor
  | IsOther

definition JacobianFactor_of_GaussianFactor ::
  "(Matrix \<Rightarrow> error + ((nat \<times> bool) \<times> Matrix)) \<Rightarrow> GaussianFactor \<Rightarrow> error + JacobianFactor" where
  "JacobianFactor_of_GaussianFactor choleskyCareful gf =
     (case gf of
        IsJacobian rhs \<Rightarrow> Inr (JacobianFactor_copy (JacobianFactor_copy rhs))
      | IsHessian rhs \<Rightarrow>
          (case JacobianFactor_of_Hessian choleskyCareful rhs of
             Inl e \<Rightarrow> Inl e
           | Inr f \<Rightarrow> Inr (JacobianFactor_copy f))
      | IsOther \<Rightarrow>
          Inl (InvalidArgument
            ''In JacobianFactor(const GaussianFactor& rhs), rhs is neither a JacobianFactor nor a HessianFactor''))"

text \<open>
  The factors the constructors produce, and the factors \<^verbatim>\<open>eliminate\<close> leaves behind
  when it is called as its assertions, the view and \<open>QR\<close> require.
\<close>

inductive produced ::
  "(noise_model \<Rightarrow> Matrix \<Rightarrow> noise_model \<times> Matrix) \<Rightarrow> (Matrix \<Rightarrow> error + ((nat \<times> bool) \<times> Matrix))
     \<Rightarrow> (Vector \<Rightarrow> bool \<Rightarrow> noise_model) \<Rightarrow> JacobianFactor \<Rightarrow> bool"
  for QR choleskyCareful Sigmas where
    by_default: "produced QR choleskyCareful Sigmas JacobianFactor_default"
  | by_b: "produced QR choleskyCareful Sigmas (JacobianFactor_b b_in)"
  | by_1: "produced QR choleskyCareful Sigmas (JacobianFactor_1 i1 A1 b m)"
  | by_2: "produced QR choleskyCareful Sigmas (JacobianFactor_2 i1 A1 i2 A2 b m)"
  | by_3: "produced QR choleskyCareful Sigmas (JacobianFactor_3 i1 A1 i2 A2 i3 A3 b m)"
  | by_terms: "produced QR choleskyCareful Sigmas (JacobianFactor_terms terms b m)"
  | by_conditional: "produced QR choleskyCareful Sigmas (JacobianFactor_of_conditional Sigmas cg)"
  | by_Hessian: "JacobianFactor_of_Hessian choleskyCareful hf = Inr f
      \<Longrightarrow> produced QR choleskyCareful Sigmas f"
  | by_copy: "produced QR choleskyCareful Sigmas gf
      \<Longrightarrow> produced QR choleskyCareful Sigmas (JacobianFactor_copy gf)"
  | by_GaussianFactor_Jacobian: "produced QR choleskyCareful Sigmas rhs
      \<Longrightarrow> JacobianFactor_of_GaussianFactor choleskyCareful (IsJacobian rhs) = Inr f
      \<Longrightarrow> produced QR choleskyCareful Sigmas f"
  | by_GaussianFactor_Hessian:
      "JacobianFactor_of_GaussianFactor choleskyCareful (IsHessian rhs) = Inr f
      \<Longrightarrow> produced QR choleskyCareful Sigmas f"
  | by_eliminate: "model f = Some m \<Longrightarrow> eliminate_pre f nrFrontals
      \<Longrightarrow> view_fits (matrix f) (Ab f) \<Longrightarrow> QR_in_place QR m (matrix f)
      \<Longrightarrow> eliminate QR nrFrontals f = Inr (c, f')
      \<Longrightarrow> produced QR choleskyCareful Sigmas f'"

section \<open>Residuals and the error\<close>

text \<open>
  Lines 266-285.  A \<^verbatim>\<open>VectorValues\<close> gives every key its vector: \<open>c key\<close> is \<^verbatim>\<open>c[key]\<close>.
  \<open>whiten\<close> is \<^verbatim>\<open>model_->whiten(v)\<close> of the noise model.
\<close>

definition unweighted_error :: "JacobianFactor \<Rightarrow> (nat \<Rightarrow> Vector) \<Rightarrow> Vector" where
  "unweighted_error f c =
     (let e = neg (getb f) in
      if empty_jf f then e
      else fold (\<lambda>pos e'. vec_add e' (mat_vec (block (matrix f) (Ab f) pos) (c (keys f ! pos))))
             [0..<size_jf f] e)"

definition error_vector ::
  "(noise_model \<Rightarrow> Vector \<Rightarrow> Vector) \<Rightarrow> JacobianFactor \<Rightarrow> (nat \<Rightarrow> Vector) \<Rightarrow> error + Vector" where
  "error_vector whiten f c =
     (case model f of
        None \<Rightarrow> Inl Undefined
      | Some m \<Rightarrow>
          if empty_jf f then Inr (whiten m (neg (getb f)))
          else Inr (whiten m (unweighted_error f c)))"

definition factor_error ::
  "(noise_model \<Rightarrow> Vector \<Rightarrow> Vector) \<Rightarrow> JacobianFactor \<Rightarrow> (nat \<Rightarrow> Vector) \<Rightarrow> error + real" where
  "factor_error whiten f c =
     (if empty_jf f then Inr 0
      else case error_vector whiten f c of
             Inl e \<Rightarrow> Inl e
           | Inr weighted \<Rightarrow> Inr (0.5 * dot weighted weighted))"

text \<open>
  The residual in the words of the spec (section 4.2): \<open>e = -b + \<Sum>\<^sub>i A\<^sub>i \<cdot> x[key\<^sub>i]\<close> over
  the variables of the factor, a vector of the factor's row dimension.
\<close>

definition spec_residual :: "JacobianFactor \<Rightarrow> (nat \<Rightarrow> Vector) \<Rightarrow> Vector" where
  "spec_residual f c =
     map (\<lambda>r. - (getb f ! r) + (\<Sum>i < size_jf f. mat_vec (getA f i) (c (keys f ! i)) ! r))
       [0..<rows_jf f]"

section \<open>Sparse entries\<close>





section \<open>JacobianFactor::equals\<close>

text \<open>
  Lines 242-263.  \<open>equal_with_abs_tol\<close> is the comparison of two rows of
  \<^verbatim>\<open>base/Matrix.h\<close>.  The loop over the rows returns \<^verbatim>\<open>false\<close> at the first row that is
  neither equal nor equal after negation.
\<close>

fun equals_rows ::
  "(Vector \<Rightarrow> Vector \<Rightarrow> real \<Rightarrow> bool) \<Rightarrow> Matrix \<Rightarrow> Matrix \<Rightarrow> real \<Rightarrow> nat list \<Rightarrow> bool" where
  "equals_rows equal_with_abs_tol Ab1 Ab2 tol [] = True"
| "equals_rows equal_with_abs_tol Ab1 Ab2 tol (r # rs) =
     (if \<not> equal_with_abs_tol (row Ab1 r) (row Ab2 r) tol
         \<and> \<not> equal_with_abs_tol (neg (row Ab1 r)) (row Ab2 r) tol
      then False
      else equals_rows equal_with_abs_tol Ab1 Ab2 tol rs)"

definition JacobianFactor_equals ::
  "(Vector \<Rightarrow> Vector \<Rightarrow> real \<Rightarrow> bool) \<Rightarrow> JacobianFactor \<Rightarrow> GaussianFactor \<Rightarrow> real \<Rightarrow> bool" where
  "JacobianFactor_equals equal_with_abs_tol this gf tol =
     (case gf of
        IsJacobian f \<Rightarrow>
          if empty_jf this then empty_jf f
          else if keys this \<noteq> keys f then False
          else if \<not> (rows (Ab this) = rows (Ab f) \<and> cols (Ab this) = cols (Ab f)) then False
          else
            (let Ab1 = range_blocks (matrix this) (Ab this) 0 (nBlocks (Ab this));
                 Ab2 = range_blocks (matrix f) (Ab f) 0 (nBlocks (Ab f))
             in equals_rows equal_with_abs_tol Ab1 Ab2 tol [0..<nrows Ab1])
      | _ \<Rightarrow> False)"

text \<open>The same matrix with the rows in \<open>S\<close> negated.\<close>

definition negate_rows :: "nat set \<Rightarrow> Matrix \<Rightarrow> Matrix" where
  "negate_rows S M = M\<lparr>coeff := (\<lambda>i j. if i \<in> S then - coeff M i j else coeff M i j)\<rparr>"

section \<open>A worked example\<close>

text \<open>
  An instance of \<open>QR\<close> for a system that is upper triangular already, under a unit
  model: the matrix stays as it is, and the rank is the smaller of the row count and
  the number of variable columns.
\<close>

definition QR_triangular :: "noise_model \<Rightarrow> Matrix \<Rightarrow> noise_model \<times> Matrix" where
  "QR_triangular m A = (Unit (min (nrows A) (ncols A - 1)), A)"

text \<open>
  An instance of \<open>whiten\<close>: every entry divided by the sigma of its row.
\<close>

definition whiten_by_sigmas :: "noise_model \<Rightarrow> Vector \<Rightarrow> Vector" where
  "whiten_by_sigmas m v = map2 (\<lambda>x s. x / s) v (sigmas m)"


text \<open>
  An instance of \<open>equal_with_abs_tol\<close>: the same length, and every two entries differ
  by the tolerance at most.
\<close>

definition abs_tol_equal :: "Vector \<Rightarrow> Vector \<Rightarrow> real \<Rightarrow> bool" where
  "abs_tol_equal v w tol = list_all2 (\<lambda>x y. \<bar>x - y\<bar> \<le> tol) v w"

text \<open>
  Three variables, 7, 9 and 11, of dimension 1 and four rows:
  \<open>2 x\<^sub>7 + x\<^sub>9 = 3\<close>, \<open>x\<^sub>9 + x\<^sub>1\<^sub>1 = 4\<close>, \<open>3 x\<^sub>1\<^sub>1 = 6\<close> and \<open>0 = 5\<close>.
\<close>

definition example_factor :: JacobianFactor where
  "example_factor =
     \<lparr>keys = [7, 9, 11], model = Some (Unit 4), firstNonzeroBlocks = [0, 0, 0, 0],
      matrix = \<lparr>nrows = 4, ncols = 4,
                coeff = (\<lambda>i j. [[2, 1, 0, 3], [0, 1, 1, 4], [0, 0, 3, 6], [0, 0, 0, 5]] ! i ! j)\<rparr>,
      Ab = \<lparr>dims = [1, 1, 1, 1], rowStart = 0, rowEnd = 4, firstBlock = 0\<rparr>\<rparr>"

text \<open>One variable, 7, of dimension 2 and one row: \<open>x\<^sub>7\<^sub>,\<^sub>0 = 2\<close>.\<close>

definition singular_factor :: JacobianFactor where
  "singular_factor =
     \<lparr>keys = [7], model = Some (Unit 1), firstNonzeroBlocks = [0],
      matrix = \<lparr>nrows = 1, ncols = 3, coeff = (\<lambda>i j. [[1, 0, 2]] ! i ! j)\<rparr>,
      Ab = \<lparr>dims = [2, 1], rowStart = 0, rowEnd = 1, firstBlock = 0\<rparr>\<rparr>"

text \<open>
  A Hessian factor on the variables 9 and 7, stored in this order, with the
  information matrix \<open>R\<^sup>T R\<close> for the upper triangular \<open>R\<close> of rows \<open>(2, 1, 3)\<close>,
  \<open>(0, 1, 2)\<close> and \<open>(0, 0, 1)\<close>; and what \<^verbatim>\<open>choleskyCareful\<close> leaves of that matrix: rank 3,
  \<open>R\<close> on and above the diagonal and the information matrix below it.
\<close>

definition example_Hessian :: HessianFactor where
  "example_Hessian =
     \<lparr>hf_keys = [9, 7],
      info_matrix = \<lparr>nrows = 3, ncols = 3,
                     coeff = (\<lambda>i j. [[4, 2, 6], [2, 2, 5], [6, 5, 14]] ! i ! j)\<rparr>,
      info_dims = [1, 1, 1]\<rparr>"

definition example_cholesky :: "Matrix \<Rightarrow> error + ((nat \<times> bool) \<times> Matrix)" where
  "example_cholesky M =
     Inr ((3, True),
          \<lparr>nrows = 3, ncols = 3, coeff = (\<lambda>i j. [[2, 1, 3], [2, 1, 2], [6, 5, 1]] ! i ! j)\<rparr>)"

section \<open>Properties of the unsupported operations\<close>

text \<open>
  C8, as the claim states it, fails: \<^verbatim>\<open>ensureArcConsistency\<close> returns \<^verbatim>\<open>false\<close> and raises
  nothing.  Here on domain 0 of an empty vector of domains.
\<close>

theorem ensureArcConsistency_returns:
  "\<not> isl (ensureArcConsistency () 0 ([] :: unit list))"
  by (simp add: ensureArcConsistency_def)

text \<open>
  C8, amended: both overloads of \<^verbatim>\<open>DecisionTreeFactor::partiallyApply\<close> raise the
  not-implemented runtime error on every input, and \<^verbatim>\<open>ensureArcConsistency\<close> returns
  \<^verbatim>\<open>false\<close> on every input, raising nothing.
\<close>

theorem unsupported_operations:
  "partiallyApply this values =
     Inl (RuntimeError ''DecisionTreeFactor::partiallyApply not implemented'')
   \<and> partiallyApply_domains this domains =
     Inl (RuntimeError ''DecisionTreeFactor::partiallyApply not implemented'')
   \<and> ensureArcConsistency this j domains' = Inr False"
  by (simp add: partiallyApply_def partiallyApply_domains_def ensureArcConsistency_def)

section \<open>Properties of CameraSet::equals\<close>

lemma equals_loop_first:
  "equals_loop camera_equals this p tol 0 True =
     (this = [] \<or> camera_equals (this ! 0) (p ! 0) tol)"
  by (cases this) (simp_all add: equals_loop.simps equals_body_def)

text \<open>
  C10: \<^verbatim>\<open>CameraSet::equals\<close> looks at the first camera only.  Two sets of different
  sizes are unequal; two sets of the same nonzero size are equal exactly when their
  first cameras are, whatever the later cameras are; two empty sets are equal.
\<close>

theorem CameraSet_equals_first_only:
  "CameraSet_equals camera_equals (c # cs) (d # ds) tol =
     (length cs = length ds \<and> camera_equals c d tol)
   \<and> CameraSet_equals camera_equals [] [] tol = True
   \<and> CameraSet_equals camera_equals [] (d # ds) tol = False
   \<and> CameraSet_equals camera_equals (c # cs) [] tol = False"
  by (simp add: CameraSet_equals_def equals_loop_first)


section \<open>Properties of eliminate\<close>

lemma eliminate_Inr:
  assumes "eliminate QR nrFrontals f = Inr (c, f')" and "model f = Some m"
  shows "\<not> dim (fst (QR m (matrix f))) < frontalDim f nrFrontals"
    and "keys f' = drop nrFrontals (keys f)"
    and "Ab f' = \<lparr>dims = dims (Ab f), rowStart = rowStart (Ab f) + frontalDim f nrFrontals,
           rowEnd = dim (fst (QR m (matrix f))), firstBlock = firstBlock (Ab f) + nrFrontals\<rparr>"
    and "matrix f' = zero_lower_left (dim (fst (QR m (matrix f)))) (snd (QR m (matrix f)))"
    and "model f' = Some (if isConstrained (fst (QR m (matrix f)))
            then Constrained (sub (sigmas (fst (QR m (matrix f)))) (frontalDim f nrFrontals)
                   (dim (fst (QR m (matrix f)))))
            else Diagonal (sub (sigmas (fst (QR m (matrix f)))) (frontalDim f nrFrontals)
                   (dim (fst (QR m (matrix f))))))"
  using assms
  by (auto simp: eliminate_def Let_def split: prod.splits if_splits)

lemma drop_nth_upt: "drop n xs = map (\<lambda>r. xs ! r) [n..<length xs]"
proof -
  have "drop n (map (\<lambda>r. xs ! r) [0..<length xs]) = map (\<lambda>r. xs ! r) [n..<length xs]"
    by (simp only: drop_map drop_upt add_0)
  then show ?thesis by (simp add: map_nth)
qed

lemma frontalDim_no_frontals: "frontalDim f 0 = 0"
  by (simp add: frontalDim_def range_blocks_def)

text \<open>
  C1: for a factor with a noise model and \<open>nrFrontals\<close> at most its number of keys,
  \<^verbatim>\<open>eliminate\<close> raises the domain error exactly when the rank \<open>QR\<close> returns is less than
  \<open>frontalDim\<close>; the error names the first key, which the factor then has; and
  \<^verbatim>\<open>eliminate\<close> returns a conditional (with the factor left behind) exactly when the rank
  is not less, so none is returned when it raises.
\<close>

theorem eliminate_singular_iff:
  assumes "model f = Some m" and "nrFrontals \<le> size_jf f"
  shows "((\<exists>var. eliminate QR nrFrontals f = Inl (DomainError var))
            \<longleftrightarrow> dim (fst (QR m (matrix f))) < frontalDim f nrFrontals)
       \<and> (dim (fst (QR m (matrix f))) < frontalDim f nrFrontals
            \<longrightarrow> eliminate QR nrFrontals f = Inl (DomainError (hd (keys f))) \<and> keys f \<noteq> [])
       \<and> ((\<exists>c f'. eliminate QR nrFrontals f = Inr (c, f'))
            \<longleftrightarrow> \<not> dim (fst (QR m (matrix f))) < frontalDim f nrFrontals)"
proof -
  have "keys f \<noteq> []" if "dim (fst (QR m (matrix f))) < frontalDim f nrFrontals"
  proof
    assume "keys f = []"
    with assms(2) have "nrFrontals = 0" by (simp add: size_jf_def)
    with that show False by (simp add: frontalDim_no_frontals)
  qed
  then show ?thesis
    using assms(1) by (auto simp: eliminate_def Let_def split: prod.splits)
qed

theorem eliminate_singular_iff_witness:
  "eliminate QR_triangular 1 singular_factor = Inl (DomainError 7)
   \<and> (\<exists>c f'. eliminate QR_triangular 1 example_factor = Inr (c, f'))"
proof -
  have 1: "model singular_factor = Some (Unit 1)" "1 \<le> size_jf singular_factor"
    by (simp_all add: singular_factor_def size_jf_def)
  have 2: "dim (fst (QR_triangular (Unit 1) (matrix singular_factor))) < frontalDim singular_factor 1"
    by (simp add: singular_factor_def QR_triangular_def frontalDim_def range_blocks_def offset_def)
  have 3: "model example_factor = Some (Unit 4)" "1 \<le> size_jf example_factor"
    by (simp_all add: example_factor_def size_jf_def)
  have 4: "\<not> dim (fst (QR_triangular (Unit 4) (matrix example_factor))) < frontalDim example_factor 1"
    by (simp add: example_factor_def QR_triangular_def frontalDim_def range_blocks_def offset_def)
  have "eliminate QR_triangular 1 singular_factor = Inl (DomainError (hd (keys singular_factor)))"
    using eliminate_singular_iff [OF 1, of QR_triangular] 2 by blast
  moreover have "\<exists>c f'. eliminate QR_triangular 1 example_factor = Inr (c, f')"
    using eliminate_singular_iff [OF 3, of QR_triangular] 4 by blast
  ultimately show ?thesis by (simp add: singular_factor_def)
qed

text \<open>
  C2: when \<^verbatim>\<open>eliminate\<close> succeeds, the factor left behind has lost its first
  \<open>nrFrontals\<close> keys; its view starts \<open>frontalDim\<close> rows and \<open>nrFrontals\<close> blocks later
  and ends at the rank \<open>QR\<close> returned; and its noise model is built from the sigmas
  \<open>frontalDim, \<dots>, rank - 1\<close> of the model \<open>QR\<close> returned, the constrained variant
  exactly when that model is constrained.
\<close>

theorem eliminate_leaves:
  assumes "eliminate QR nrFrontals f = Inr (c, f')" and "model f = Some m"
    and "noiseModel = fst (QR m (matrix f))"
  shows "keys f' = drop nrFrontals (keys f)
       \<and> rowStart (Ab f') = rowStart (Ab f) + frontalDim f nrFrontals
       \<and> firstBlock (Ab f') = firstBlock (Ab f) + nrFrontals
       \<and> rowEnd (Ab f') = dim noiseModel
       \<and> frontalDim f nrFrontals \<le> dim noiseModel
       \<and> model f' =
           Some (if isConstrained noiseModel
                 then Constrained (sub (sigmas noiseModel) (frontalDim f nrFrontals) (dim noiseModel))
                 else Diagonal (sub (sigmas noiseModel) (frontalDim f nrFrontals) (dim noiseModel)))
       \<and> sub (sigmas noiseModel) (frontalDim f nrFrontals) (dim noiseModel)
           = map (\<lambda>r. sigmas noiseModel ! r) [frontalDim f nrFrontals..<dim noiseModel]"
proof -
  note e = eliminate_Inr [OF assms(1,2)]
  have len: "length (sigmas noiseModel) = dim noiseModel"
    by (cases noiseModel) simp_all
  have "sub (sigmas noiseModel) (frontalDim f nrFrontals) (dim noiseModel)
          = map (\<lambda>r. sigmas noiseModel ! r) [frontalDim f nrFrontals..<dim noiseModel]"
    using len by (simp add: sub_def drop_nth_upt)
  then show ?thesis
    using e by (simp add: assms(3) e(3))
qed

lemma example_eliminate:
  "eliminate QR_triangular 1 example_factor
     = Inr (fst (projr (eliminate QR_triangular 1 example_factor)),
            snd (projr (eliminate QR_triangular 1 example_factor)))"
proof -
  obtain c f' where "eliminate QR_triangular 1 example_factor = Inr (c, f')"
    by (auto simp: eliminate_def example_factor_def QR_triangular_def frontalDim_def
        range_blocks_def offset_def Let_def)
  then show ?thesis by simp
qed

lemma example_facts:
  "model example_factor = Some (Unit 4)"
  "frontalDim example_factor 1 = 1"
  "fst (QR_triangular (Unit 4) (matrix example_factor)) = Unit 3"
  "keys example_factor = [7, 9, 11]"
  "Ab example_factor = \<lparr>dims = [1, 1, 1, 1], rowStart = 0, rowEnd = 4, firstBlock = 0\<rparr>"
  by (simp_all add: example_factor_def QR_triangular_def frontalDim_def range_blocks_def
      offset_def)

theorem eliminate_leaves_witness:
  "keys (snd (projr (eliminate QR_triangular 1 example_factor))) = [9, 11]
   \<and> rowStart (Ab (snd (projr (eliminate QR_triangular 1 example_factor)))) = 1
   \<and> firstBlock (Ab (snd (projr (eliminate QR_triangular 1 example_factor)))) = 1
   \<and> rowEnd (Ab (snd (projr (eliminate QR_triangular 1 example_factor)))) = 3
   \<and> model (snd (projr (eliminate QR_triangular 1 example_factor))) = Some (Diagonal [1, 1])"
proof -
  show ?thesis
    using eliminate_leaves [OF example_eliminate example_facts(1) refl]
    unfolding example_facts by (simp add: sub_def numeral_3_eq_3)
qed

section \<open>Properties of the zeroing loop and of the row starts\<close>

lemma set_coeff_simps [simp]:
  "nrows (set_coeff M i j v) = nrows M"
  "ncols (set_coeff M i j v) = ncols M"
  "coeff (set_coeff M i j v) i' j' = (if i' = i \<and> j' = j then v else coeff M i' j')"
  by (simp_all add: set_coeff_def)

lemma fold_set_coeff:
  "nrows (fold (\<lambda>i M'. set_coeff M' i j 0) is M) = nrows M"
  "ncols (fold (\<lambda>i M'. set_coeff M' i j 0) is M) = ncols M"
  "coeff (fold (\<lambda>i M'. set_coeff M' i j 0) is M) i' j' =
     (if i' \<in> set is \<and> j' = j then 0 else coeff M i' j')"
  by (induction "is" arbitrary: M; simp; fail)+

lemma zero_column_simps [simp]:
  "nrows (zero_column rank j M) = nrows M"
  "ncols (zero_column rank j M) = ncols M"
  "coeff (zero_column rank j M) i' j' =
     (if j' = j \<and> j < i' \<and> i' < rank then 0 else coeff M i' j')"
  by (auto simp: zero_column_def fold_set_coeff)

lemma fold_zero_column:
  "nrows (fold (zero_column rank) js M) = nrows M"
  "ncols (fold (zero_column rank) js M) = ncols M"
  "coeff (fold (zero_column rank) js M) i' j' =
     (if j' \<in> set js \<and> j' < i' \<and> i' < rank then 0 else coeff M i' j')"
  by (induction js arbitrary: M; simp; fail)+

text \<open>
  After lines 425-428 the coefficients below the diagonal in the rows before \<open>rank\<close>
  are zero, and nothing else has changed.
\<close>

lemma zero_lower_left_simps [simp]:
  "nrows (zero_lower_left rank M) = nrows M"
  "ncols (zero_lower_left rank M) = ncols M"
  "coeff (zero_lower_left rank M) i j =
     (if 0 < nrows M \<and> j < ncols M \<and> j < i \<and> i < rank then 0 else coeff M i j)"
  by (auto simp: zero_lower_left_def fold_zero_column)

lemma sum_list_take_mono:
  fixes xs :: "nat list"
  shows "a \<le> b \<Longrightarrow> sum_list (take a xs) \<le> sum_list (take b xs)"
proof -
  assume "a \<le> b"
  then have "take b xs = take a xs @ take (b - a) (drop a xs)"
    using take_add [of a "b - a" xs] by simp
  then show ?thesis by simp
qed

lemma offset_mono: "a \<le> b \<Longrightarrow> offset v a \<le> offset v b"
  by (simp add: offset_def sum_list_take_mono)

lemma offset_le_total: "offset v a \<le> sum_list (dims v)"
proof -
  have "sum_list (dims v) = sum_list (take (firstBlock v + a) (dims v))
          + sum_list (drop (firstBlock v + a) (dims v))"
    by (metis append_take_drop_id sum_list_append)
  then show ?thesis by (simp add: offset_def)
qed

text \<open>
  The \<^verbatim>\<open>while\<close> loop keeps \<open>varpos\<close> at a block that starts at or before the row, counted
  from the first column of the view.
\<close>

lemma advance_varpos_le:
  "offset (Ab f) varpos - offset (Ab f) 0 \<le> r \<Longrightarrow>
   offset (Ab f) (advance_varpos f r varpos) - offset (Ab f) 0 \<le> r"
proof (induction f r varpos rule: advance_varpos.induct)
  case (1 f r varpos)
  show ?case
  proof (cases "varpos < size_jf f \<and> offset (Ab f) (varpos + 1) - offset (Ab f) 0 \<le> r")
    case True
    then show ?thesis using "1.IH" by (subst advance_varpos.simps) simp
  next
    case False
    then show ?thesis using "1.prems" by (subst advance_varpos.simps) auto
  qed
qed

lemma advance_varpos_cong:
  "keys f = keys g \<Longrightarrow> Ab f = Ab g \<Longrightarrow> advance_varpos f r v = advance_varpos g r v"
proof (induction f r v rule: advance_varpos.induct)
  case (1 f r varpos)
  show ?case
    using 1 by (subst advance_varpos.simps, subst (2) advance_varpos.simps)
      (simp add: size_jf_def)
qed

lemma rowstarts_length [simp]: "length (rowstarts f rs varpos) = length rs"
  by (induction rs arbitrary: varpos) (simp_all add: Let_def)

lemma rowstarts_cong:
  "keys f = keys g \<Longrightarrow> Ab f = Ab g \<Longrightarrow> rowstarts f rs v = rowstarts g rs v"
  by (induction rs arbitrary: v) (simp_all add: Let_def advance_varpos_cong [of f g])

lemma rowstarts_le:
  "sorted rs \<Longrightarrow> \<forall>r \<in> set rs. offset (Ab f) varpos - offset (Ab f) 0 \<le> r \<Longrightarrow> i < length rs \<Longrightarrow>
   offset (Ab f) (rowstarts f rs varpos ! i) - offset (Ab f) 0 \<le> rs ! i"
proof (induction rs arbitrary: varpos i)
  case Nil
  then show ?case by simp
next
  case (Cons r rs)
  let ?v = "advance_varpos f r varpos"
  have v: "offset (Ab f) ?v - offset (Ab f) 0 \<le> r"
    using Cons.prems(2) by (intro advance_varpos_le) simp
  show ?case
  proof (cases i)
    case 0
    then show ?thesis using v by (simp add: Let_def)
  next
    case (Suc i')
    have "\<forall>r' \<in> set rs. offset (Ab f) ?v - offset (Ab f) 0 \<le> r'"
      using v Cons.prems(1) by fastforce
    then have "offset (Ab f) (rowstarts f rs ?v ! i') - offset (Ab f) 0 \<le> rs ! i'"
      using Cons.prems(1,3) Suc by (intro Cons.IH) auto
    then show ?thesis using Suc by (simp add: Let_def)
  qed
qed

lemma eliminate_fnb:
  assumes "eliminate QR nrFrontals f = Inr (c, f')" and "model f = Some m"
  shows "firstNonzeroBlocks f' = rowstarts f' [0..<rows_jf f'] 0"
proof -
  from assms obtain f1
    where f': "f' = f1\<lparr>firstNonzeroBlocks := rowstarts f1 [0..<rows_jf f1] 0\<rparr>"
    by (auto simp: eliminate_def Let_def split: prod.splits if_splits)
  have "rowstarts f' [0..<rows_jf f'] 0 = rowstarts f1 [0..<rows_jf f1] 0"
    unfolding f' by (subst rowstarts_cong [of _ f1]) (simp_all add: rows_jf_def)
  then show ?thesis by (simp add: f')
qed

section \<open>The staircase invariant\<close>

lemma staircaseI:
  assumes "length (firstNonzeroBlocks f) = rows_jf f"
    and "\<And>r k. r < rows_jf f \<Longrightarrow> k < firstNonzeroBlocks f ! r \<Longrightarrow> block_is_zero f r k"
  shows "staircase f"
proof -
  have "firstNonzeroBlocks f ! r \<le> k"
    if "r < rows_jf f" and "first_nonzero_block f r = Some k" for r k
  proof (rule ccontr)
    assume "\<not> firstNonzeroBlocks f ! r \<le> k"
    then have "block_is_zero f r k" using assms(2) that(1) by simp
    moreover have "\<not> block_is_zero f r k"
      using that(2) by (auto simp: first_nonzero_block_def find_Some_iff)
    ultimately show False by simp
  qed
  then show ?thesis
    using assms(1) by (auto simp: staircase_def split: option.splits)
qed

text \<open>A staircase of zeros claims nothing: every constructor but the copy starts so.\<close>

lemma staircase_replicate:
  "firstNonzeroBlocks f = replicate (rows_jf f) 0 \<Longrightarrow> staircase f"
  by (rule staircaseI) simp_all

lemma staircase_constructors:
  "staircase JacobianFactor_default"
  "staircase (JacobianFactor_b b_in)"
  "staircase (JacobianFactor_1 i1 A1 b m)"
  "staircase (JacobianFactor_2 i1 A1 i2 A2 b m)"
  "staircase (JacobianFactor_3 i1 A1 i2 A2 i3 A3 b m)"
  "staircase (JacobianFactor_terms terms b m)"
  "staircase (JacobianFactor_of_conditional Sigmas cg)"
  by (rule staircase_replicate;
      simp add: JacobianFactor_default_def JacobianFactor_b_def JacobianFactor_1_def
        JacobianFactor_2_def JacobianFactor_3_def JacobianFactor_terms_def
        JacobianFactor_of_conditional_def copyStructureFrom_def assignNoalias_def
        rows_jf_def rows_def Let_def)+

lemma staircase_of_Hessian:
  "JacobianFactor_of_Hessian choleskyCareful hf = Inr f \<Longrightarrow> staircase f"
  by (rule staircase_replicate)
    (auto simp: JacobianFactor_of_Hessian_def Let_def rows_jf_def split: sum.splits prod.splits)

text \<open>
  The copy holds the active rows and blocks of its source at the same places of the
  view, so it has the same zero blocks.
\<close>

lemma copy_view:
  "rows_jf (JacobianFactor_copy gf) = rows_jf gf"
  "nBlocks (Ab (JacobianFactor_copy gf)) = nBlocks (Ab gf)"
  "firstNonzeroBlocks (JacobianFactor_copy gf) = firstNonzeroBlocks gf"
  by (simp_all add: JacobianFactor_copy_def assignNoalias_def rows_jf_def rows_def nBlocks_def)

lemma copy_offset:
  "offset (Ab gf) 0 + offset (Ab (JacobianFactor_copy gf)) k = offset (Ab gf) k"
  by (simp add: JacobianFactor_copy_def assignNoalias_def offset_def take_add)

lemma copy_block_is_zero:
  "block_is_zero (JacobianFactor_copy gf) r k = block_is_zero gf r k"
proof -
  let ?o = "offset (Ab gf) 0"
  let ?c = "JacobianFactor_copy gf"
  have coeff: "coeff (matrix ?c) (rowStart (Ab ?c) + r) j
                 = coeff (matrix gf) (rowStart (Ab gf) + r) (?o + j)" for j
    by (simp add: JacobianFactor_copy_def assignNoalias_def range_blocks_def)
  have "{offset (Ab gf) k..<offset (Ab gf) (Suc k)}
          = (\<lambda>j. ?o + j) ` {offset (Ab ?c) k..<offset (Ab ?c) (Suc k)}"
    unfolding copy_offset [of gf k, symmetric] copy_offset [of gf "Suc k", symmetric]
    by (simp add: image_add_atLeastLessThan add.commute)
  then have "block_is_zero gf r k
          = (\<forall>c \<in> (\<lambda>j. ?o + j) ` {offset (Ab ?c) k..<offset (Ab ?c) (Suc k)}.
               coeff (matrix gf) (rowStart (Ab gf) + r) c = 0)"
    by (simp only: block_is_zero_def)
  also have "\<dots> = (\<forall>j \<in> {offset (Ab ?c) k..<offset (Ab ?c) (Suc k)}.
               coeff (matrix gf) (rowStart (Ab gf) + r) (?o + j) = 0)"
    by blast
  also have "\<dots> = block_is_zero ?c r k"
    by (simp only: block_is_zero_def coeff)
  finally show ?thesis by simp
qed

lemma staircase_copy: "staircase gf \<Longrightarrow> staircase (JacobianFactor_copy gf)"
  by (auto simp: staircase_def first_nonzero_block_def copy_view copy_block_is_zero
      split: option.splits)

text \<open>
  After \<^verbatim>\<open>eliminate\<close>: the row of the view that \<open>varpos\<close> was computed for lies in the rows
  that lines 425-428 zeroed below the diagonal, and the blocks before \<open>varpos\<close> end at or
  before the diagonal.
\<close>

lemma staircase_eliminate:
  assumes el: "eliminate QR nrFrontals f = Inr (c, f')" and m: "model f = Some m"
    and pre: "eliminate_pre f nrFrontals" and fits: "view_fits (matrix f) (Ab f)"
    and qr: "QR_in_place QR m (matrix f)"
  shows "staircase f'"
proof (rule staircaseI)
  note e = eliminate_Inr [OF el m]
  define rank where "rank = dim (fst (QR m (matrix f)))"
  define M1 where "M1 = snd (QR m (matrix f))"
  have M1: "ncols M1 = ncols (matrix f)" "rank \<le> nrows M1"
    using qr by (auto simp: QR_in_place_def rank_def M1_def split: prod.splits)
  have fnb: "firstNonzeroBlocks f' = rowstarts f' [0..<rows_jf f'] 0"
    by (rule eliminate_fnb [OF el m])
  show "length (firstNonzeroBlocks f') = rows_jf f'"
    by (simp add: fnb)
  have start: "rowStart (Ab f') = offset (Ab f') 0"
    using pre by (simp add: e(3) offset_def frontalDim_def range_blocks_def eliminate_pre_def)
  have "rows_jf f' = rank - rowStart (Ab f')"
    by (simp add: rows_jf_def rows_def e(3) rank_def)
  then have rows: "rowStart (Ab f') + r < rank" if "r < rows_jf f'" for r
    using that by simp
  have total: "sum_list (dims (Ab f')) = ncols M1"
    using fits by (simp add: e(3) M1 view_fits_def)
  fix r k
  assume r: "r < rows_jf f'" and k: "k < firstNonzeroBlocks f' ! r"
  have "offset (Ab f') (rowstarts f' [0..<rows_jf f'] 0 ! r) - offset (Ab f') 0
          \<le> [0..<rows_jf f'] ! r"
    using r by (intro rowstarts_le) simp_all
  then have v: "offset (Ab f') (firstNonzeroBlocks f' ! r) - offset (Ab f') 0 \<le> r"
    using r by (simp add: fnb)
  have "offset (Ab f') (Suc k) \<le> offset (Ab f') (firstNonzeroBlocks f' ! r)"
    using k by (intro offset_mono) simp
  then have below: "offset (Ab f') (Suc k) \<le> rowStart (Ab f') + r"
    using v start by simp
  show "block_is_zero f' r k"
    unfolding block_is_zero_def
  proof
    fix col
    assume "col \<in> {offset (Ab f') k..<offset (Ab f') (Suc k)}"
    then have col: "col < offset (Ab f') (Suc k)" by simp
    then have 1: "col < rowStart (Ab f') + r" using below by simp
    have "col < sum_list (dims (Ab f'))"
      using col offset_le_total [of "Ab f'" "Suc k"] by simp
    then have 2: "col < ncols M1" by (simp add: total)
    have 3: "0 < nrows M1" using rows [OF r] M1(2) by simp
    show "coeff (matrix f') (rowStart (Ab f') + r) col = 0"
      using 1 2 3 rows [OF r] by (simp add: e(4) rank_def [symmetric] M1_def [symmetric])
  qed
qed

text \<open>
  C5: every factor a constructor produces, and every factor \<^verbatim>\<open>eliminate\<close> leaves behind,
  has a \<^verbatim>\<open>firstNonzeroBlocks_\<close> entry for every active row, and the entry is at most the
  first block of the row that holds a nonzero coefficient.
\<close>

theorem produced_staircase:
  assumes "produced QR choleskyCareful Sigmas f"
  shows "staircase f"
  using assms
proof (induction rule: produced.induct)
  case (by_Hessian hf f)
  then show ?case by (rule staircase_of_Hessian)
next
  case (by_copy gf)
  then show ?case by (simp add: staircase_copy)
next
  case (by_GaussianFactor_Jacobian rhs f)
  then show ?case
    by (auto simp: JacobianFactor_of_GaussianFactor_def staircase_copy)
next
  case (by_GaussianFactor_Hessian rhs f)
  then show ?case
    by (auto simp: JacobianFactor_of_GaussianFactor_def staircase_copy staircase_of_Hessian
        split: sum.splits)
next
  case (by_eliminate f m nrFrontals c f')
  then show ?case by (simp add: staircase_eliminate)
qed (simp_all add: staircase_constructors)


lemma example_pre:
  "eliminate_pre example_factor 1"
  "view_fits (matrix example_factor) (Ab example_factor)"
  "QR_in_place QR_triangular (Unit 4) (matrix example_factor)"
  by (simp_all add: eliminate_pre_def view_fits_def QR_in_place_def QR_triangular_def
      example_factor_def size_jf_def)

theorem produced_staircase_witness:
  "staircase (snd (projr (eliminate QR_triangular 1 example_factor)))
   \<and> firstNonzeroBlocks (snd (projr (eliminate QR_triangular 1 example_factor))) = [0, 1]"
proof -
  define f' where "f' = snd (projr (eliminate QR_triangular 1 example_factor))"
  have el: "eliminate QR_triangular 1 example_factor
              = Inr (fst (projr (eliminate QR_triangular 1 example_factor)), f')"
    unfolding f'_def by (rule example_eliminate)
  have "produced QR_triangular (\<lambda>M. Inl CarefulCholeskyNegativeMatrixException)
          (\<lambda>v smart. Diagonal v) f'"
    by (rule produced.by_eliminate [OF example_facts(1) example_pre el])
  then have "staircase f'"
    by (rule produced_staircase)
  moreover have "firstNonzeroBlocks f' = [0, 1]"
  proof -
    have Ab: "Ab f' = \<lparr>dims = [1, 1, 1, 1], rowStart = 1, rowEnd = 3, firstBlock = 1\<rparr>"
      using eliminate_Inr(3) [OF el example_facts(1)]
      unfolding example_facts by simp
    have k: "size_jf f' = 2"
      using eliminate_Inr(2) [OF el example_facts(1)]
      unfolding example_facts by (simp add: size_jf_def)
    have r: "[0..<rows_jf f'] = [0, 1]"
      by (simp add: rows_jf_def rows_def Ab upt_conv_Cons)
    have a0: "advance_varpos f' 0 0 = 0"
      by (subst advance_varpos.simps) (simp add: Ab k offset_def)
    have "advance_varpos f' 1 0 = advance_varpos f' 1 1"
      by (subst advance_varpos.simps) (simp add: Ab k offset_def)
    also have "\<dots> = 1"
      by (subst advance_varpos.simps) (simp add: Ab k offset_def)
    finally have a1: "advance_varpos f' 1 0 = 1" .
    show ?thesis
      unfolding eliminate_fnb [OF el example_facts(1)] r
      by (simp add: a0 a1 [simplified])
  qed
  ultimately show ?thesis
    unfolding f'_def by (rule conjI)
qed


section \<open>Properties of the residual and the error\<close>

lemma length_getb [simp]: "length (getb f) = rows_jf f"
  by (simp add: getb_def column_def rows_jf_def)

lemma length_mat_vec [simp]: "length (mat_vec A x) = nrows A"
  by (simp add: mat_vec_def)

lemma nrows_block [simp]: "nrows (block M v pos) = rows v"
  by (simp add: block_def range_blocks_def)

text \<open>
  The loop of lines 269-270 adds, at every row, the products of the variables it has
  passed.
\<close>

lemma fold_vec_add:
  assumes "length e = n" and "\<forall>pos \<in> set ps. length (g pos) = n"
  shows "length (fold (\<lambda>pos e'. vec_add e' (g pos)) ps e) = n
       \<and> (\<forall>r < n. fold (\<lambda>pos e'. vec_add e' (g pos)) ps e ! r
                      = e ! r + sum_list (map (\<lambda>pos. g pos ! r) ps))"
  using assms
proof (induction ps arbitrary: e)
  case Nil
  then show ?case by simp
next
  case (Cons p ps)
  have len: "length (vec_add e (g p)) = n"
    using Cons.prems by (simp add: vec_add_def)
  have nth: "vec_add e (g p) ! r = e ! r + g p ! r" if "r < n" for r
    using Cons.prems that by (simp add: vec_add_def)
  have "\<forall>pos \<in> set ps. length (g pos) = n"
    using Cons.prems by simp
  from Cons.IH [OF len this] show ?case
    by (simp add: nth add.assoc)
qed

lemma unweighted_error_spec: "unweighted_error f c = spec_residual f c"
proof (cases "empty_jf f")
  case True
  then have rows: "rows_jf f = 0"
    by (simp add: empty_jf_def)
  then have "length (getb f) = 0"
    by simp
  then have "getb f = []"
    by (simp only: length_0_conv)
  then show ?thesis
    using True rows by (simp add: unweighted_error_def spec_residual_def neg_def)
next
  case False
  let ?g = "\<lambda>pos. mat_vec (block (matrix f) (Ab f) pos) (c (keys f ! pos))"
  let ?u = "fold (\<lambda>pos e'. vec_add e' (?g pos)) [0..<size_jf f] (neg (getb f))"
  have "length (neg (getb f)) = rows_jf f"
    by (simp add: neg_def)
  moreover have "\<forall>pos \<in> set [0..<size_jf f]. length (?g pos) = rows_jf f"
    by (simp add: rows_jf_def)
  ultimately have u: "length ?u = rows_jf f"
    "\<And>r. r < rows_jf f \<Longrightarrow>
       ?u ! r = neg (getb f) ! r + sum_list (map (\<lambda>pos. ?g pos ! r) [0..<size_jf f])"
    using fold_vec_add [of "neg (getb f)" "rows_jf f" "[0..<size_jf f]" ?g] by simp_all
  have "?u = spec_residual f c"
  proof (rule nth_equalityI)
    show "length ?u = length (spec_residual f c)"
      by (simp add: u(1) spec_residual_def)
  next
    fix r
    assume "r < length ?u"
    then have r: "r < rows_jf f" by (simp add: u(1))
    have "sum_list (map (\<lambda>pos. ?g pos ! r) [0..<size_jf f]) = (\<Sum>i < size_jf f. ?g i ! r)"
      by (simp add: interv_sum_list_conv_sum_set_nat lessThan_atLeast0)
    then have "?u ! r = neg (getb f) ! r + (\<Sum>i < size_jf f. ?g i ! r)"
      using u(2) [OF r] by simp
    moreover have "neg (getb f) ! r = - (getb f ! r)"
      using r by (simp add: neg_def)
    moreover have "spec_residual f c ! r = - (getb f ! r) + (\<Sum>i < size_jf f. ?g i ! r)"
      using r by (simp add: spec_residual_def getA_def)
    ultimately show "?u ! r = spec_residual f c ! r"
      by simp
  qed
  then show ?thesis
    using False by (simp add: unweighted_error_def)
qed

text \<open>
  C3: the unweighted residual is \<open>-b + \<Sum>\<^sub>i A\<^sub>i \<cdot> c[key\<^sub>i]\<close>, and \<open>-b\<close> for a factor with no
  keys; for a factor with a noise model that whitens the empty vector to the empty
  vector, the weighted residual is the whitened unweighted residual, and the error is
  half its squared norm, also when the factor is empty.
\<close>

theorem residual_and_error:
  assumes "model f = Some m" and "whiten m [] = []"
  shows "unweighted_error f c = spec_residual f c
       \<and> (keys f = [] \<longrightarrow> unweighted_error f c = neg (getb f))
       \<and> error_vector whiten f c = Inr (whiten m (spec_residual f c))
       \<and> factor_error whiten f c
           = Inr (0.5 * dot (whiten m (spec_residual f c)) (whiten m (spec_residual f c)))"
proof -
  have u: "unweighted_error f c = spec_residual f c"
    by (rule unweighted_error_spec)
  have no_keys: "unweighted_error f c = neg (getb f)" if "keys f = []"
    using that by (simp add: unweighted_error_def size_jf_def Let_def)
  have e: "spec_residual f c = []" if "empty_jf f"
    using that by (simp add: empty_jf_def spec_residual_def)
  have "neg (getb f) = unweighted_error f c" if "empty_jf f"
    using that by (simp add: unweighted_error_def)
  then have e': "neg (getb f) = []" if "empty_jf f"
    using that e u by simp
  have ev: "error_vector whiten f c = Inr (whiten m (spec_residual f c))"
    using assms(1) e e' by (simp add: error_vector_def u)
  have "factor_error whiten f c
          = Inr (0.5 * dot (whiten m (spec_residual f c)) (whiten m (spec_residual f c)))"
    using e assms(2) by (simp add: factor_error_def ev dot_def)
  then show ?thesis
    using u no_keys ev by simp
qed


lemma example_residual: "spec_residual example_factor (\<lambda>key. [1]) = [0, - 2, - 3, - 5]"
  by (simp add: spec_residual_def example_factor_def rows_jf_def rows_def size_jf_def
      getb_def column_def getA_def block_def range_blocks_def mat_vec_def offset_def
      upt_conv_Cons lessThan_Suc eval_nat_numeral)

theorem residual_and_error_witness:
  "unweighted_error example_factor (\<lambda>key. [1]) = [0, - 2, - 3, - 5]
   \<and> factor_error whiten_by_sigmas example_factor (\<lambda>key. [1]) = Inr 19"
proof -
  have w: "whiten_by_sigmas (Unit 4) [] = []"
    by (simp add: whiten_by_sigmas_def)
  have "whiten_by_sigmas (Unit 4) [0, - 2, - 3, - 5] = [0, - 2, - 3, - 5]"
    by (simp add: whiten_by_sigmas_def eval_nat_numeral)
  then show ?thesis
    using residual_and_error [where whiten = whiten_by_sigmas and c = "\<lambda>key. [1]",
        OF example_facts(1) w]
    by (simp add: example_residual dot_def)
qed


section \<open>Properties of the conversion from a HessianFactor\<close>

lemma fold_set_insert:
  "sorted acc \<Longrightarrow> distinct acc \<Longrightarrow>
   sorted (fold set_insert ks acc) \<and> distinct (fold set_insert ks acc)
   \<and> set (fold set_insert ks acc) = set ks \<union> set acc"
proof (induction ks arbitrary: acc)
  case Nil
  then show ?case by simp
next
  case (Cons k ks)
  have "sorted (set_insert k acc)" "distinct (set_insert k acc)"
    "set (set_insert k acc) = insert k (set acc)"
    using Cons.prems by (auto simp: set_insert_def sorted_insort distinct_insort set_insort_key)
  with Cons.IH [of "set_insert k acc"] show ?case by auto
qed

text \<open>The \<^verbatim>\<open>std::set\<close> of distinct keys, in ascending order, is the sorted keys.\<close>

lemma vars_sorted: "distinct ks \<Longrightarrow> fold set_insert ks [] = sort ks"
proof -
  assume "distinct ks"
  then have "distinct (sort ks)" "sorted (sort ks)" "set (sort ks) = set ks"
    by simp_all
  moreover have "sorted (fold set_insert ks [])" "distinct (fold set_insert ks [])"
    "set (fold set_insert ks []) = set ks"
    using fold_set_insert [of "[]" ks] by simp_all
  ultimately show ?thesis
    by (intro sorted_distinct_set_unique) simp_all
qed

text \<open>The last loop overwrites the slots \<open>n, n + 1, \<dots>\<close> by the sorted keys.\<close>

lemma fold_overwrite:
  "n + length vars \<le> length ks \<Longrightarrow>
   fold (\<lambda>(jNew, var) ks'. ks'[jNew := var]) (enumerate n vars) ks
     = take n ks @ vars @ drop (n + length vars) ks"
proof (induction vars arbitrary: n ks)
  case Nil
  then show ?case by simp
next
  case (Cons v vars)
  have "fold (\<lambda>(jNew, var) ks'. ks'[jNew := var]) (enumerate (Suc n) vars) (ks[n := v])
          = take (Suc n) (ks[n := v]) @ vars @ drop (Suc n + length vars) (ks[n := v])"
    using Cons.prems by (intro Cons.IH) simp
  moreover have "take (Suc n) (ks[n := v]) = take n ks @ [v]"
    using Cons.prems by (simp add: take_Suc_conv_app_nth)
  ultimately show ?case by simp
qed

text \<open>When the keys are sorted at all, the result is the keys in ascending order.\<close>

lemma sort_keys_Inr:
  assumes "sort_keys ks = Inr ks'" and "distinct ks"
  shows "ks' = sort ks"
proof -
  have vars: "fold set_insert ks [] = sort ks"
    by (rule vars_sorted [OF assms(2)])
  have over: "fold (\<lambda>(jNew, var) ks'. ks'[jNew := var]) (enumerate 0 (sort ks)) ks1 = sort ks"
    if "length ks1 = length ks" for ks1
    using that fold_overwrite [of 0 "sort ks" ks1] by simp
  show ?thesis
    using assms(1)
    by (simp add: sort_keys_def vars Let_def over permuteWithInverse_def split: if_splits)
qed

lemma sorted_le_last:
  fixes xs :: "nat list"
  shows "sorted xs \<Longrightarrow> x \<in> set xs \<Longrightarrow> x \<le> last xs"
  by (induction xs) auto

text \<open>They are sorted when there is a key and no key is the largest \<^verbatim>\<open>size_t\<close>.\<close>

lemma sort_keys_sorted:
  assumes "ks \<noteq> []" and "distinct ks" and "\<forall>k \<in> set ks. k < SIZE_MAX"
  shows "sort_keys ks = Inr (sort ks)"
proof -
  have vars: "fold set_insert ks [] = sort ks"
    by (rule vars_sorted [OF assms(2)])
  have ne: "sort ks \<noteq> []"
    using assms(1) by (metis length_sort length_0_conv)
  then have "last (sort ks) \<in> set ks"
    using last_in_set [of "sort ks"] by simp
  then have "last (sort ks) + 1 < SIZE_MAX + 1"
    using assms(3) by auto
  then have size: "(last (sort ks) + 1) mod (SIZE_MAX + 1) = last (sort ks) + 1"
    by (rule mod_less)
  have "var < last (sort ks) + 1" if "var \<in> set (sort ks)" for var
    using sorted_le_last [of "sort ks" var] that by simp
  then have range: "list_all (\<lambda>var. var < length [0..<(last (sort ks) + 1) mod (SIZE_MAX + 1)])
                      (sort ks)"
    unfolding size by (simp add: list_all_iff)
  have over: "fold (\<lambda>(jNew, var) ks'. ks'[jNew := var]) (enumerate 0 (sort ks)) ks1 = sort ks"
    if "length ks1 = length ks" for ks1
    using that fold_overwrite [of 0 "sort ks" ks1] by simp
  have "sort_keys ks
          = Inr (fold (\<lambda>(jNew, var) ks'. ks'[jNew := var]) (enumerate 0 (sort ks))
                  (permuteWithInverse
                     (fold (\<lambda>(jNew, var) p. p[var := jNew]) (enumerate 0 (sort ks))
                        [0..<(last (sort ks) + 1) mod (SIZE_MAX + 1)]) ks))"
    unfolding sort_keys_def vars Let_def using range ne by (simp only: not_not not_True_eq_False if_False if_True)
  also have "\<dots> = Inr (sort ks)"
    by (simp only: over permuteWithInverse_def length_map)
  finally show ?thesis .
qed

text \<open>With the largest key the size of the permutation wraps to 0.\<close>

lemma sort_keys_largest_key: "sort_keys [SIZE_MAX] = Inl Undefined"
proof -
  have "fold set_insert [SIZE_MAX] [] = [SIZE_MAX]"
    by (simp add: set_insert_def)
  moreover have "(last [SIZE_MAX] + 1) mod (SIZE_MAX + 1) = 0"
    by simp
  ultimately show ?thesis
    unfolding sort_keys_def Let_def by (simp only:) simp
qed

text \<open>
  C4: the conversion raises the negative-matrix exception exactly when
  \<^verbatim>\<open>choleskyCareful\<close> does.  Whenever it returns a factor from a Hessian factor with
  different keys, \<^verbatim>\<open>choleskyCareful\<close> has returned a rank, the matrix of the factor is
  zero below the diagonal in the rows before that rank, its keys are the keys of the
  Hessian factor in ascending order, its noise model is the unit model of the rank,
  and its view ends at the rank.  And it does return a factor when \<^verbatim>\<open>choleskyCareful\<close>
  returns and the Hessian factor has keys, all different and none of them the largest
  \<^verbatim>\<open>size_t\<close>, at which line 201 wraps.
\<close>

theorem of_Hessian:
  "((JacobianFactor_of_Hessian choleskyCareful hf = Inl CarefulCholeskyNegativeMatrixException)
      \<longleftrightarrow> (choleskyCareful (info_matrix hf) = Inl CarefulCholeskyNegativeMatrixException))
   \<and> (JacobianFactor_of_Hessian choleskyCareful hf = Inr f \<and> distinct (hf_keys hf)
      \<longrightarrow> (\<exists>maxrank ok M1. choleskyCareful (info_matrix hf) = Inr ((maxrank, ok), M1)
             \<and> (\<forall>i j. i < maxrank \<and> j < i \<and> j < ncols (matrix f) \<longrightarrow> coeff (matrix f) i j = 0)
             \<and> keys f = sort (hf_keys hf)
             \<and> model f = Some (Unit maxrank)
             \<and> rowEnd (Ab f) = maxrank))
   \<and> (choleskyCareful (info_matrix hf) = Inr ((maxrank', ok'), M1')
        \<and> hf_keys hf \<noteq> [] \<and> distinct (hf_keys hf) \<and> (\<forall>k \<in> set (hf_keys hf). k < SIZE_MAX)
      \<longrightarrow> (\<exists>f'. JacobianFactor_of_Hessian choleskyCareful hf = Inr f'))"
proof (intro conjI impI)
  show "(JacobianFactor_of_Hessian choleskyCareful hf = Inl CarefulCholeskyNegativeMatrixException)
      \<longleftrightarrow> (choleskyCareful (info_matrix hf) = Inl CarefulCholeskyNegativeMatrixException)"
    by (auto simp: JacobianFactor_of_Hessian_def sort_keys_def Let_def
        split: sum.splits prod.splits if_splits)
next
  assume a: "JacobianFactor_of_Hessian choleskyCareful hf = Inr f \<and> distinct (hf_keys hf)"
  then obtain maxrank ok M1 ks
    where c: "choleskyCareful (info_matrix hf) = Inr ((maxrank, ok), M1)"
      and k: "sort_keys (hf_keys hf) = Inr ks"
      and f: "f = \<lparr>keys = ks, model = Some (Unit maxrank),
                  firstNonzeroBlocks = replicate (rows \<lparr>dims = info_dims hf, rowStart = 0,
                     rowEnd = maxrank, firstBlock = 0\<rparr>) 0,
                  matrix = zero_strictly_lower maxrank M1,
                  Ab = \<lparr>dims = info_dims hf, rowStart = 0, rowEnd = maxrank, firstBlock = 0\<rparr>\<rparr>"
    by (auto simp: JacobianFactor_of_Hessian_def Let_def split: sum.splits prod.splits)
  have "ks = sort (hf_keys hf)"
    using k a by (intro sort_keys_Inr) simp_all
  then show "\<exists>maxrank ok M1. choleskyCareful (info_matrix hf) = Inr ((maxrank, ok), M1)
             \<and> (\<forall>i j. i < maxrank \<and> j < i \<and> j < ncols (matrix f) \<longrightarrow> coeff (matrix f) i j = 0)
             \<and> keys f = sort (hf_keys hf)
             \<and> model f = Some (Unit maxrank)
             \<and> rowEnd (Ab f) = maxrank"
    using c by (simp add: f zero_strictly_lower_def)
next
  assume a: "choleskyCareful (info_matrix hf) = Inr ((maxrank', ok'), M1')
        \<and> hf_keys hf \<noteq> [] \<and> distinct (hf_keys hf) \<and> (\<forall>k \<in> set (hf_keys hf). k < SIZE_MAX)"
  then have "sort_keys (hf_keys hf) = Inr (sort (hf_keys hf))"
    by (intro sort_keys_sorted) simp_all
  with a show "\<exists>f'. JacobianFactor_of_Hessian choleskyCareful hf = Inr f'"
    by (simp add: JacobianFactor_of_Hessian_def Let_def)
qed

theorem of_Hessian_witness:
  "keys (projr (JacobianFactor_of_Hessian example_cholesky example_Hessian)) = [7, 9]
   \<and> model (projr (JacobianFactor_of_Hessian example_cholesky example_Hessian)) = Some (Unit 3)
   \<and> coeff (matrix (projr (JacobianFactor_of_Hessian example_cholesky example_Hessian))) 2 1 = 0
   \<and> coeff (matrix (projr (JacobianFactor_of_Hessian example_cholesky example_Hessian))) 1 2 = 2"
proof -
  define M1 :: Matrix
    where "M1 = \<lparr>nrows = 3, ncols = 3, coeff = (\<lambda>i j. [[2, 1, 3], [2, 1, 2], [6, 5, 1]] ! i ! j)\<rparr>"
  have c: "example_cholesky (info_matrix example_Hessian) = Inr ((3, True), M1)"
    by (simp add: example_cholesky_def M1_def)
  have d: "hf_keys example_Hessian \<noteq> []" "distinct (hf_keys example_Hessian)"
    "\<forall>k \<in> set (hf_keys example_Hessian). k < SIZE_MAX"
    by (simp_all add: example_Hessian_def SIZE_MAX_def)
  obtain f where f: "JacobianFactor_of_Hessian example_cholesky example_Hessian = Inr f"
    using of_Hessian [of example_cholesky example_Hessian _ 3 True M1] c d by blast
  then obtain maxrank ok M
    where r: "example_cholesky (info_matrix example_Hessian) = Inr ((maxrank, ok), M)"
      and z: "\<forall>i j. i < maxrank \<and> j < i \<and> j < ncols (matrix f) \<longrightarrow> coeff (matrix f) i j = 0"
      and k: "keys f = sort (hf_keys example_Hessian)" and m: "model f = Some (Unit maxrank)"
    using of_Hessian [of example_cholesky example_Hessian f] d(2) by blast
  have rank: "maxrank = 3"
    using r c by simp
  have mat: "matrix f = zero_strictly_lower 3 M1"
    using f by (auto simp: JacobianFactor_of_Hessian_def example_cholesky_def M1_def Let_def
        split: sum.splits)
  have "ncols (matrix f) = 3" "coeff (matrix f) 1 2 = 2"
    by (simp_all add: mat zero_strictly_lower_def M1_def)
  moreover from this z have "coeff (matrix f) 2 1 = 0" by (simp add: rank)
  moreover have "keys f = [7, 9]"
    by (simp add: k example_Hessian_def)
  ultimately show ?thesis
    by (simp add: f m rank)
qed

section \<open>Properties of the sparse entries\<close>








section \<open>Properties of JacobianFactor::equals\<close>

text \<open>The loop accepts exactly when every row is equal or equal after negation.\<close>

lemma equals_rows_all:
  "equals_rows equal_with_abs_tol Ab1 Ab2 tol rs
     \<longleftrightarrow> (\<forall>r \<in> set rs. equal_with_abs_tol (row Ab1 r) (row Ab2 r) tol
                       \<or> equal_with_abs_tol (neg (row Ab1 r)) (row Ab2 r) tol)"
  by (induction rs) auto

lemma row_negate_rows:
  "row (range_blocks (negate_rows S M) v i j) r
     = (if rowStart v + r \<in> S then neg (row (range_blocks M v i j) r)
        else row (range_blocks M v i j) r)"
  by (simp add: row_def range_blocks_def negate_rows_def neg_def)

lemma equals_ignores_model:
  "JacobianFactor_equals equal_with_abs_tol (F\<lparr>model := a\<rparr>) (IsJacobian (G\<lparr>model := b\<rparr>)) tol
     = JacobianFactor_equals equal_with_abs_tol F (IsJacobian G) tol"
  by (simp add: JacobianFactor_equals_def empty_jf_def size_jf_def rows_jf_def)

text \<open>
  C9: when the row comparison accepts every row against itself at the tolerance, a
  factor equals every factor that differs from it by the sign of some rows of the
  matrix and by the noise model; and the result of \<^verbatim>\<open>equals\<close> on two Jacobian factors does
  not change when their noise models are replaced.
\<close>

theorem equals_sign_flips:
  assumes "\<forall>v. equal_with_abs_tol v v tol"
  shows "JacobianFactor_equals equal_with_abs_tol F
           (IsJacobian (F\<lparr>model := m', matrix := negate_rows S (matrix F)\<rparr>)) tol
       \<and> JacobianFactor_equals equal_with_abs_tol (F\<lparr>model := a\<rparr>) (IsJacobian (G\<lparr>model := b\<rparr>)) tol
           = JacobianFactor_equals equal_with_abs_tol F (IsJacobian G) tol"
proof
  let ?G = "F\<lparr>model := m', matrix := negate_rows S (matrix F)\<rparr>"
  have "equals_rows equal_with_abs_tol
          (range_blocks (matrix F) (Ab F) 0 (nBlocks (Ab F)))
          (range_blocks (negate_rows S (matrix F)) (Ab F) 0 (nBlocks (Ab F))) tol rs" for rs
    using assms by (simp add: equals_rows_all row_negate_rows)
  moreover have "empty_jf ?G = empty_jf F"
    by (simp add: empty_jf_def size_jf_def rows_jf_def)
  ultimately show "JacobianFactor_equals equal_with_abs_tol F (IsJacobian ?G) tol"
    by (simp add: JacobianFactor_equals_def)
next
  show "JacobianFactor_equals equal_with_abs_tol (F\<lparr>model := a\<rparr>) (IsJacobian (G\<lparr>model := b\<rparr>)) tol
           = JacobianFactor_equals equal_with_abs_tol F (IsJacobian G) tol"
    by (rule equals_ignores_model)
qed

theorem equals_sign_flips_witness:
  "JacobianFactor_equals abs_tol_equal example_factor
     (IsJacobian (example_factor\<lparr>model := Some (Diagonal [2, 2, 2, 2]),
                                  matrix := negate_rows {1, 3} (matrix example_factor)\<rparr>))
     (1 / 10 ^ 9)"
proof -
  have "\<forall>v. abs_tol_equal v v (1 / 10 ^ 9)"
    by (simp add: abs_tol_equal_def list_all2_same)
  then show ?thesis
    using equals_sign_flips [of abs_tol_equal "1 / 10 ^ 9" example_factor] by blast
qed

end
